theory Spec2Isabelle
  imports Main
begin

section \<open>Data model\<close>

text \<open>
  Identifiers are the string form of the store's object ids: every comparison in the
  controllers is made on \<^verbatim>\<open>_id.toString()\<close> against \<^verbatim>\<open>document.id\<close>,
  \<^verbatim>\<open>req.user.id\<close> or \<^verbatim>\<open>req.body.user\<close>. The string form of a stored id
  (\<^verbatim>\<open>toString()\<close>, \<^verbatim>\<open>.id\<close>) is canonical: 24 hexadecimal digits in lower case.
  The keys of the store and the ids kept inside records are canonical strings.
\<close>

type_synonym objectId = string

text \<open>
  \<^verbatim>\<open>utils/appError.js\<close>: an operational error carries its message and its status code.
  Dereferencing \<^verbatim>\<open>null\<close>/\<^verbatim>\<open>undefined\<close> and iterating a number raise the
  runtime's \<^verbatim>\<open>TypeError\<close>, and a \<^verbatim>\<open>findById\<close> on a string that is not an
  object id is rejected with the store library's \<^verbatim>\<open>CastError\<close>; neither is an
  \<^verbatim>\<open>AppError\<close>.
\<close>

datatype error = AppError string nat | TypeError | CastError

text \<open>
  Modelled from the spec: the schema files \<^verbatim>\<open>models/userModel\<close>,
  \<^verbatim>\<open>models/communityModel\<close> and the Post/Comment models are not part of the sources.
  The records below carry the fields the controllers read and write, typed as section 3
  of the specification gives them. Vote sets are arrays (order and repetitions kept),
  counters and karma are integers.
\<close>

record User =
  karma :: int
  upvotedPosts :: "objectId list"
  downvotedPosts :: "objectId list"
  upvotedComments :: "objectId list"
  downvotedComments :: "objectId list"

record Document =
  creator :: objectId
  community :: objectId
  upvotes :: int
  downvotes :: int

text \<open>
  A community keeps the fields the modelled handlers read or write; the descriptive
  fields (rules, avatar, cover, ...) are passed through unchanged by the source and are
  left out. Both a votable document and a community have a \<open>creator\<close>: the short name
  denotes the community's, \<open>Document.creator\<close> the document's.
\<close>

record Community =
  name :: string
  creator :: objectId
  moderators :: "objectId list"
  bannedUsers :: "objectId list"

text \<open>
  The persistent store: the user collection, one collection of votable documents per
  model name (the handler factory is parametrised by the model), and the communities.
\<close>

record store =
  users :: "objectId \<rightharpoonup> User"
  docs :: "string \<Rightarrow> objectId \<rightharpoonup> Document"
  communities :: "objectId \<rightharpoonup> Community"

section \<open>String-keyed field access on a user document\<close>

text \<open>
  \<^verbatim>\<open>userDoc[`${upvotedDocs}`]\<close>: a path that is not on the user schema reads as
  \<^verbatim>\<open>undefined\<close> (here \<open>None\<close>), and calling \<^verbatim>\<open>.map\<close> on it raises.
\<close>

definition getField :: "User \<Rightarrow> string \<Rightarrow> objectId list option" where
  "getField u f =
     (if f = ''upvotedPosts'' then Some (upvotedPosts u)
      else if f = ''downvotedPosts'' then Some (downvotedPosts u)
      else if f = ''upvotedComments'' then Some (upvotedComments u)
      else if f = ''downvotedComments'' then Some (downvotedComments u)
      else None)"

definition setField :: "string \<Rightarrow> objectId list \<Rightarrow> User \<Rightarrow> User" where
  "setField f v u =
     (if f = ''upvotedPosts'' then u\<lparr>upvotedPosts := v\<rparr>
      else if f = ''downvotedPosts'' then u\<lparr>downvotedPosts := v\<rparr>
      else if f = ''upvotedComments'' then u\<lparr>upvotedComments := v\<rparr>
      else if f = ''downvotedComments'' then u\<lparr>downvotedComments := v\<rparr>
      else u)"

text \<open>The array helpers of the store: \<^verbatim>\<open>pull\<close> removes every occurrence, \<^verbatim>\<open>push\<close> appends.\<close>

definition pull :: "objectId \<Rightarrow> objectId list \<Rightarrow> objectId list" where
  "pull x xs = filter (\<lambda>y. y \<noteq> x) xs"

definition push :: "objectId \<Rightarrow> objectId list \<Rightarrow> objectId list" where
  "push x xs = xs @ [x]"

text \<open>
  The field names chosen from \<^verbatim>\<open>Model.modelName\<close> (lines 110-119 and 164-173 of the
  handler factory).
\<close>

definition upvotedDocs :: "string \<Rightarrow> string" where
  "upvotedDocs modelName =
     (if modelName = ''Post'' then ''upvotedPosts''
      else if modelName = ''Comment'' then ''upvotedComments''
      else ''upvotedDocs'')"

definition downvotedDocs :: "string \<Rightarrow> string" where
  "downvotedDocs modelName =
     (if modelName = ''Post'' then ''downvotedPosts''
      else if modelName = ''Comment'' then ''downvotedComments''
      else ''downvotedDocs'')"

section \<open>Saving\<close>

text \<open>
  \<^verbatim>\<open>save()\<close> writes the paths the handler modified on its in-memory copy to the stored
  record of the same id: the vote arrays for \<^verbatim>\<open>userDoc\<close>, the two counters for
  \<^verbatim>\<open>document\<close>, the karma for \<^verbatim>\<open>creator\<close>. The handlers load \<^verbatim>\<open>userDoc\<close>
  and \<^verbatim>\<open>creator\<close> by two separate reads, so when a user votes on their own document
  the two copies are distinct objects and each save writes its own paths. One request is
  modelled as running to completion on the store (the interleavings of section 5 of the
  specification are outside this model).
\<close>

definition saveUserDoc :: "objectId \<Rightarrow> User \<Rightarrow> store \<Rightarrow> store" where
  "saveUserDoc uid userDoc s =
     (case users s uid of
        None \<Rightarrow> s
      | Some u \<Rightarrow>
          s\<lparr>users := (users s)(uid \<mapsto>
               u\<lparr>upvotedPosts := upvotedPosts userDoc,
                 downvotedPosts := downvotedPosts userDoc,
                 upvotedComments := upvotedComments userDoc,
                 downvotedComments := downvotedComments userDoc\<rparr>)\<rparr>)"

definition saveCreator :: "objectId \<Rightarrow> User \<Rightarrow> store \<Rightarrow> store" where
  "saveCreator cid c s =
     (case users s cid of
        None \<Rightarrow> s
      | Some u \<Rightarrow> s\<lparr>users := (users s)(cid \<mapsto> u\<lparr>karma := karma c\<rparr>)\<rparr>)"

definition saveDocument :: "string \<Rightarrow> objectId \<Rightarrow> Document \<Rightarrow> store \<Rightarrow> store" where
  "saveDocument modelName did d s =
     (case docs s modelName did of
        None \<Rightarrow> s
      | Some d0 \<Rightarrow>
          s\<lparr>docs := (docs s)(modelName := (docs s modelName)(did \<mapsto>
               d0\<lparr>upvotes := upvotes d, downvotes := downvotes d\<rparr>))\<rparr>)"

section \<open>The vote handlers\<close>

text \<open>
  Each handler takes the model name, the store, \<^verbatim>\<open>req.params.id\<close> and the id of
  \<^verbatim>\<open>req.user\<close>, and returns the store after the request together with either the
  error raised or the status code and document of the response. The handlers use
  \<^verbatim>\<open>req.params.id\<close> only to find the document and work with \<^verbatim>\<open>document.id\<close>
  from then on, so the argument stands for the canonical id of the request.
\<close>

type_synonym voteResult = "store \<times> (error + nat \<times> Document)"

definition upvoteDocument :: "string \<Rightarrow> store \<Rightarrow> objectId \<Rightarrow> objectId \<Rightarrow> voteResult" where
  "upvoteDocument modelName s paramsId userId =
     (case docs s modelName paramsId of
        None \<Rightarrow> (s, Inl (AppError ''Document not found'' 404))
      | Some document \<Rightarrow>
          (case users s userId of
             None \<Rightarrow> (s, Inl TypeError)
           | Some userDoc \<Rightarrow>
               (case getField userDoc (upvotedDocs modelName) of
                  None \<Rightarrow> (s, Inl TypeError)
                | Some upvotedDocsIds \<Rightarrow>
                    (case getField userDoc (downvotedDocs modelName) of
                       None \<Rightarrow> (s, Inl TypeError)
                     | Some downvotedDocsIds \<Rightarrow>
                         if paramsId \<in> set upvotedDocsIds
                         then (s, Inl (AppError ''You have already upvoted'' 400))
                         else
                           let creator0 = users s (Document.creator document);
                               switch = (paramsId \<in> set downvotedDocsIds)
                           in if switch \<and> creator0 = None then (s, Inl TypeError)
                              else
                                let userDoc1 =
                                      (if switch
                                       then setField (downvotedDocs modelName)
                                              (pull paramsId downvotedDocsIds) userDoc
                                       else userDoc);
                                    document1 =
                                      (if switch
                                       then document\<lparr>downvotes := downvotes document - 1\<rparr>
                                       else document);
                                    creator1 =
                                      (if switch
                                       then map_option (\<lambda>c. c\<lparr>karma := karma c + 1\<rparr>) creator0
                                       else creator0);
                                    userDoc2 =
                                      setField (upvotedDocs modelName)
                                        (push paramsId upvotedDocsIds) userDoc1;
                                    s1 = saveUserDoc userId userDoc2 s;
                                    document2 = document1\<lparr>upvotes := upvotes document1 + 1\<rparr>;
                                    s2 = saveDocument modelName paramsId document2 s1
                                in (case creator1 of
                                      None \<Rightarrow> (s2, Inl TypeError)
                                    | Some c \<Rightarrow>
                                        (saveCreator (Document.creator document)
                                           (c\<lparr>karma := karma c + 1\<rparr>) s2,
                                         Inr (200, document2)))))))"

definition downvoteDocument :: "string \<Rightarrow> store \<Rightarrow> objectId \<Rightarrow> objectId \<Rightarrow> voteResult" where
  "downvoteDocument modelName s paramsId userId =
     (case docs s modelName paramsId of
        None \<Rightarrow> (s, Inl (AppError ''Document not found'' 404))
      | Some document \<Rightarrow>
          (case users s userId of
             None \<Rightarrow> (s, Inl TypeError)
           | Some userDoc \<Rightarrow>
               (case getField userDoc (upvotedDocs modelName) of
                  None \<Rightarrow> (s, Inl TypeError)
                | Some upvotedDocsIds \<Rightarrow>
                    (case getField userDoc (downvotedDocs modelName) of
                       None \<Rightarrow> (s, Inl TypeError)
                     | Some downvotedDocsIds \<Rightarrow>
                         if paramsId \<in> set downvotedDocsIds
                         then (s, Inl (AppError ''You have already downvoted'' 400))
                         else
                           let creator0 = users s (Document.creator document);
                               switch = (paramsId \<in> set upvotedDocsIds)
                           in if switch \<and> creator0 = None then (s, Inl TypeError)
                              else
                                let userDoc1 =
                                      (if switch
                                       then setField (upvotedDocs modelName)
                                              (pull paramsId upvotedDocsIds) userDoc
                                       else userDoc);
                                    document1 =
                                      (if switch
                                       then document\<lparr>upvotes := upvotes document - 1\<rparr>
                                       else document);
                                    creator1 =
                                      (if switch
                                       then map_option (\<lambda>c. c\<lparr>karma := karma c - 1\<rparr>) creator0
                                       else creator0);
                                    userDoc2 =
                                      setField (downvotedDocs modelName)
                                        (push paramsId downvotedDocsIds) userDoc1;
                                    s1 = saveUserDoc userId userDoc2 s;
                                    document2 = document1\<lparr>downvotes := downvotes document1 + 1\<rparr>;
                                    s2 = saveDocument modelName paramsId document2 s1
                                in (case creator1 of
                                      None \<Rightarrow> (s2, Inl TypeError)
                                    | Some c \<Rightarrow>
                                        (saveCreator (Document.creator document)
                                           (c\<lparr>karma := karma c - 1\<rparr>) s2,
                                         Inr (200, document2)))))))"

text \<open>
  The two removals mutate all three copies first and save afterwards, so a missing
  creator raises before anything is written.
\<close>

definition removeUpvote :: "string \<Rightarrow> store \<Rightarrow> objectId \<Rightarrow> objectId \<Rightarrow> voteResult" where
  "removeUpvote modelName s paramsId userId =
     (case docs s modelName paramsId of
        None \<Rightarrow> (s, Inl (AppError ''Document not found'' 404))
      | Some document \<Rightarrow>
          (case users s userId of
             None \<Rightarrow> (s, Inl TypeError)
           | Some userDoc \<Rightarrow>
               (case getField userDoc (upvotedDocs modelName) of
                  None \<Rightarrow> (s, Inl TypeError)
                | Some upvotedDocsIds \<Rightarrow>
                    if paramsId \<notin> set upvotedDocsIds
                    then (s, Inl (AppError ''You have not upvoted'' 400))
                    else
                      (case users s (Document.creator document) of
                         None \<Rightarrow> (s, Inl TypeError)
                       | Some c \<Rightarrow>
                           let userDoc1 = setField (upvotedDocs modelName)
                                            (pull paramsId upvotedDocsIds) userDoc;
                               document1 = document\<lparr>upvotes := upvotes document - 1\<rparr>;
                               creator1 = c\<lparr>karma := karma c - 1\<rparr>;
                               s1 = saveUserDoc userId userDoc1 s;
                               s2 = saveDocument modelName paramsId document1 s1;
                               s3 = saveCreator (Document.creator document) creator1 s2
                           in (s3, Inr (200, document1))))))"

definition removeDownvote :: "string \<Rightarrow> store \<Rightarrow> objectId \<Rightarrow> objectId \<Rightarrow> voteResult" where
  "removeDownvote modelName s paramsId userId =
     (case docs s modelName paramsId of
        None \<Rightarrow> (s, Inl (AppError ''Document not found'' 404))
      | Some document \<Rightarrow>
          (case users s userId of
             None \<Rightarrow> (s, Inl TypeError)
           | Some userDoc \<Rightarrow>
               (case getField userDoc (downvotedDocs modelName) of
                  None \<Rightarrow> (s, Inl TypeError)
                | Some downvotedDocsIds \<Rightarrow>
                    if paramsId \<notin> set downvotedDocsIds
                    then (s, Inl (AppError ''You have not downvoted'' 400))
                    else
                      (case users s (Document.creator document) of
                         None \<Rightarrow> (s, Inl TypeError)
                       | Some c \<Rightarrow>
                           let userDoc1 = setField (downvotedDocs modelName)
                                            (pull paramsId downvotedDocsIds) userDoc;
                               document1 = document\<lparr>downvotes := downvotes document - 1\<rparr>;
                               creator1 = c\<lparr>karma := karma c + 1\<rparr>;
                               s1 = saveUserDoc userId userDoc1 s;
                               s2 = saveDocument modelName paramsId document1 s1;
                               s3 = saveCreator (Document.creator document) creator1 s2
                           in (s3, Inr (200, document1))))))"

section \<open>The community handlers\<close>

text \<open>\<^verbatim>\<open>/^\w+$/\<close>: one or more of the characters A-Z, a-z, 0-9 and the underscore.\<close>

definition isWordChar :: "char \<Rightarrow> bool" where
  "isWordChar c =
     (let n = (of_char c :: nat)
      in (48 \<le> n \<and> n \<le> 57) \<or> (65 \<le> n \<and> n \<le> 90) \<or> n = 95 \<or> (97 \<le> n \<and> n \<le> 122))"

definition matchesWord :: "string \<Rightarrow> bool" where
  "matchesWord nm = (nm \<noteq> [] \<and> list_all isWordChar nm)"

text \<open>
  \<^verbatim>\<open>createCommunity\<close>. The arguments after the store are the id the store gives the
  new record, the id of \<^verbatim>\<open>req.user\<close>, and the fields \<^verbatim>\<open>name\<close>,
  \<^verbatim>\<open>moderators\<close> and \<^verbatim>\<open>bannedUsers\<close> of the request body (\<open>None\<close> when the
  body does not carry them).

  When a moderators array is supplied, line 40 evaluates
  \<^verbatim>\<open>new Set(moderators.push(user?.id))\<close>: \<^verbatim>\<open>push\<close> returns the new length of the
  array, a number, and constructing a set from a number raises \<^verbatim>\<open>TypeError\<close>. An
  array is truthy even when empty.

  \<^verbatim>\<open>subCreatorDoc?.karma < 49\<close> is false when no user record was found.
\<close>

type_synonym communityResult = "store \<times> (error + nat \<times> Community)"

definition createCommunity ::
  "store \<Rightarrow> objectId \<Rightarrow> objectId \<Rightarrow> string option \<Rightarrow> objectId list option \<Rightarrow>
   objectId list option \<Rightarrow> communityResult" where
  "createCommunity s newId userId bodyName bodyModerators bodyBannedUsers =
     (case bodyName of
        None \<Rightarrow> (s, Inl TypeError)
      | Some nm \<Rightarrow>
          if \<not> matchesWord nm
          then (s, Inl (AppError
                  ''Community name can only contain letters, numbers and underscores'' 400))
          else if (case users s userId of
                     None \<Rightarrow> False
                   | Some subCreatorDoc \<Rightarrow> karma subCreatorDoc < 49)
          then (s, Inl (AppError ''You need at least 50 karma to create a community'' 400))
          else
            (case bodyModerators of
               Some ms \<Rightarrow> (s, Inl TypeError)
             | None \<Rightarrow>
                 let mods = [userId];
                     communityDoc = \<lparr>name = nm, creator = userId, moderators = mods,
                                     bannedUsers = (case bodyBannedUsers of
                                                      None \<Rightarrow> [] | Some bs \<Rightarrow> bs)\<rparr>
                 in (s\<lparr>communities := (communities s)(newId \<mapsto> communityDoc)\<rparr>,
                     Inr (201, communityDoc))))"

text \<open>
  \<^verbatim>\<open>findById\<close> casts the string it is given to an object id: a string of 24
  hexadecimal digits in either case denotes the id whose canonical string is its
  lower-case form; any other string is taken here as not castable (12-character
  strings, which some versions of the store library also accept, are left out).
\<close>

definition isHexChar :: "char \<Rightarrow> bool" where
  "isHexChar c = (c \<in> set ''0123456789abcdefABCDEF'')"

definition toLowerHex :: "char \<Rightarrow> char" where
  "toLowerHex c =
     (if c = CHR ''A'' then CHR ''a''
      else if c = CHR ''B'' then CHR ''b''
      else if c = CHR ''C'' then CHR ''c''
      else if c = CHR ''D'' then CHR ''d''
      else if c = CHR ''E'' then CHR ''e''
      else if c = CHR ''F'' then CHR ''f''
      else c)"

definition castObjectId :: "string \<Rightarrow> objectId option" where
  "castObjectId v =
     (if length v = 24 \<and> list_all isHexChar v then Some (map toLowerHex v) else None)"

text \<open>
  \<^verbatim>\<open>ban\<close>: the arguments after the store are \<^verbatim>\<open>req.params.id\<close>, the id of
  \<^verbatim>\<open>req.user\<close> (canonical, it is read off the authenticated user document) and
  \<^verbatim>\<open>req.body.user\<close>, both request strings as the client sent them.

  The community and the target are found by \<^verbatim>\<open>findById\<close>, that is by the cast id
  (lines 150-151). The creator guard and the already-banned guard (lines 169, 177)
  compare the canonical strings of the stored ids with the raw \<^verbatim>\<open>req.body.user\<close>.
  What is pushed is \<^verbatim>\<open>user._id\<close>, the id of the user that was found.
\<close>

definition ban :: "store \<Rightarrow> string \<Rightarrow> objectId \<Rightarrow> string \<Rightarrow> communityResult" where
  "ban s paramsId reqUserId bodyUser =
     (case castObjectId paramsId of
        None \<Rightarrow> (s, Inl CastError)
      | Some communityId \<Rightarrow>
     (case castObjectId bodyUser of
        None \<Rightarrow> (s, Inl CastError)
      | Some userId \<Rightarrow>
     (case users s userId of
        None \<Rightarrow> (s, Inl (AppError ''User not found'' 404))
      | Some user \<Rightarrow>
          (case communities s communityId of
             None \<Rightarrow> (s, Inl (AppError ''Community not found'' 404))
           | Some communityDoc \<Rightarrow>
               if reqUserId \<notin> set (moderators communityDoc)
               then (s, Inl (AppError ''You are not a moderator of this community'' 400))
               else if creator communityDoc = bodyUser
               then (s, Inl (AppError ''Unauthorized'' 400))
               else if bodyUser \<in> set (bannedUsers communityDoc)
               then (s, Inl (AppError ''User is already banned from this community'' 400))
               else
                 let community1 =
                       communityDoc\<lparr>bannedUsers := push userId (bannedUsers communityDoc)\<rparr>
                 in (s\<lparr>communities := (communities s)(communityId \<mapsto> community1)\<rparr>,
                     Inr (200, community1))))))"

text \<open>
  The moderators list computed by \<^verbatim>\<open>updateCommunity\<close> (lines 94-96), the sibling of
  the expression in \<^verbatim>\<open>createCommunity\<close>:
  \<^verbatim>\<open>Array.from(new Set([...moderators, user.id]))\<close> keeps the first occurrence of each
  id, in order. Only this expression of that handler is modelled.
\<close>

definition arrayFromSet :: "objectId list \<Rightarrow> objectId list" where
  "arrayFromSet xs = rev (remdups (rev xs))"

definition updateCommunityMods :: "objectId list option \<Rightarrow> objectId \<Rightarrow> objectId list" where
  "updateCommunityMods bodyModerators userId =
     (case bodyModerators of
        Some ms \<Rightarrow> arrayFromSet (ms @ [userId])
      | None \<Rightarrow> [userId])"

section \<open>Observations on a store\<close>

text \<open>
  What the properties below read off a store: a user's two opposing vote sets for the
  content kind of a model, and a user's karma.
\<close>

definition upvotedSet :: "string \<Rightarrow> store \<Rightarrow> objectId \<Rightarrow> objectId list option" where
  "upvotedSet modelName s uid =
     (case users s uid of None \<Rightarrow> None | Some u \<Rightarrow> getField u (upvotedDocs modelName))"

definition downvotedSet :: "string \<Rightarrow> store \<Rightarrow> objectId \<Rightarrow> objectId list option" where
  "downvotedSet modelName s uid =
     (case users s uid of None \<Rightarrow> None | Some u \<Rightarrow> getField u (downvotedDocs modelName))"

definition karmaOf :: "store \<Rightarrow> objectId \<Rightarrow> int option" where
  "karmaOf s uid = map_option karma (users s uid)"

text \<open>
  The uniqueness invariant for one user and one document id: when the user has both
  vote sets of the kind, the id is not in both.
\<close>

definition uniqueVotes :: "string \<Rightarrow> store \<Rightarrow> objectId \<Rightarrow> objectId \<Rightarrow> bool" where
  "uniqueVotes modelName s uid d =
     (case upvotedSet modelName s uid of
        None \<Rightarrow> True
      | Some ups \<Rightarrow>
          (case downvotedSet modelName s uid of
             None \<Rightarrow> True
           | Some downs \<Rightarrow> \<not> (d \<in> set ups \<and> d \<in> set downs)))"

text \<open>
  What a successful vote leaves alone: the acting user's karma, the document's
  creator and community references, every user other than the acting user and the
  document's creator, every other document, and the communities.
\<close>

abbreviation unchangedElsewhere ::
  "string \<Rightarrow> store \<Rightarrow> objectId \<Rightarrow> objectId \<Rightarrow> Document \<Rightarrow> store \<Rightarrow> Document \<Rightarrow> bool" where
  "unchangedElsewhere modelName s d uid doc s' doc' \<equiv>
     karmaOf s' uid = karmaOf s uid \<and>
     docs s' modelName d = Some doc' \<and>
     Document.creator doc' = Document.creator doc \<and> community doc' = community doc \<and>
     (\<forall>x. x \<noteq> uid \<and> x \<noteq> Document.creator doc \<longrightarrow> users s' x = users s x) \<and>
     (\<forall>m' d'. m' \<noteq> modelName \<or> d' \<noteq> d \<longrightarrow> docs s' m' d' = docs s m' d') \<and>
     communities s' = communities s"

section \<open>Example stores\<close>

text \<open>
  A small store used to instantiate the theorems: user \<open>A\<close> with a given karma and
  given post vote sets, user \<open>B\<close> who created post \<open>D\<close> and community \<open>C\<close>,
  a second moderator \<open>M\<close> and a banned user \<open>X\<close>.
\<close>

definition exampleUser :: "int \<Rightarrow> objectId list \<Rightarrow> objectId list \<Rightarrow> User" where
  "exampleUser k ups downs =
     \<lparr>karma = k, upvotedPosts = ups, downvotedPosts = downs,
      upvotedComments = [], downvotedComments = []\<rparr>"

definition exampleDoc :: Document where
  "exampleDoc = \<lparr>Document.creator = ''B'', community = ''C'', upvotes = 3, downvotes = 1\<rparr>"

definition exampleCommunity :: Community where
  "exampleCommunity =
     \<lparr>name = ''cats'', creator = ''B'', moderators = [''B'', ''M''], bannedUsers = [''X'']\<rparr>"

definition exampleStore :: "int \<Rightarrow> objectId list \<Rightarrow> objectId list \<Rightarrow> store" where
  "exampleStore k ups downs =
     \<lparr>users = [''A'' \<mapsto> exampleUser k ups downs, ''B'' \<mapsto> exampleUser 7 [] [],
               ''M'' \<mapsto> exampleUser 0 [] [], ''X'' \<mapsto> exampleUser 0 [] []],
      docs = (\<lambda>_. Map.empty)(''Post'' := [''D'' \<mapsto> exampleDoc]),
      communities = [''C'' \<mapsto> exampleCommunity]\<rparr>"

text \<open>
  A store with canonical ids for the ban handler: a community whose creator and a
  second user are its moderators, one banned user and one further user.
\<close>

definition creatorId :: objectId where
  "creatorId = ''5f0000000000000000000abc''"

definition moderatorId :: objectId where
  "moderatorId = ''5f0000000000000000000def''"

definition bannedId :: objectId where
  "bannedId = ''5f0000000000000000000bad''"

definition otherId :: objectId where
  "otherId = ''5f0000000000000000000123''"

definition communityId :: objectId where
  "communityId = ''5f0000000000000000000c01''"

definition banCommunity :: Community where
  "banCommunity =
     \<lparr>name = ''cats'', creator = creatorId, moderators = [creatorId, moderatorId],
      bannedUsers = [bannedId]\<rparr>"

definition banStore :: store where
  "banStore =
     \<lparr>users = [creatorId \<mapsto> exampleUser 7 [] [], moderatorId \<mapsto> exampleUser 0 [] [],
               bannedId \<mapsto> exampleUser 0 [] [], otherId \<mapsto> exampleUser 0 [] []],
      docs = (\<lambda>_. Map.empty),
      communities = [communityId \<mapsto> banCommunity]\<rparr>"

section \<open>Field access and saving: basic facts\<close>

lemma getField_up_imp_down:
  "getField u (upvotedDocs m) = Some xs \<Longrightarrow> \<exists>ys. getField u (downvotedDocs m) = Some ys"
  by (auto simp: getField_def upvotedDocs_def downvotedDocs_def split: if_splits)

lemma getField_down_imp_up:
  "getField u (downvotedDocs m) = Some xs \<Longrightarrow> \<exists>ys. getField u (upvotedDocs m) = Some ys"
  by (auto simp: getField_def upvotedDocs_def downvotedDocs_def split: if_splits)

lemma up_neq_down [simp]: "upvotedDocs m \<noteq> downvotedDocs m'"
  by (auto simp: upvotedDocs_def downvotedDocs_def)

lemma down_neq_up [simp]: "downvotedDocs m' \<noteq> upvotedDocs m"
  by (auto simp: upvotedDocs_def downvotedDocs_def)

lemma getField_setField:
  "getField (setField f v u) g = (if f = g \<and> getField u f \<noteq> None then Some v else getField u g)"
  by (auto simp: getField_def setField_def)

lemma karma_setField [simp]: "karma (setField f v u) = karma u"
  by (simp add: setField_def)

lemma getField_karma_update [simp]: "getField (u\<lparr>karma := k\<rparr>) f = getField u f"
  by (simp add: getField_def)

lemma getField_merge [simp]:
  "getField (u0\<lparr>upvotedPosts := upvotedPosts u1, downvotedPosts := downvotedPosts u1,
       upvotedComments := upvotedComments u1, downvotedComments := downvotedComments u1\<rparr>) f
   = getField u1 f"
  by (simp add: getField_def)

lemma users_saveUserDoc:
  "users (saveUserDoc uid u1 s) x =
     (if x = uid then map_option (\<lambda>u0. u0\<lparr>upvotedPosts := upvotedPosts u1, downvotedPosts := downvotedPosts u1,
       upvotedComments := upvotedComments u1, downvotedComments := downvotedComments u1\<rparr>) (users s x) else users s x)"
  by (auto simp: saveUserDoc_def split: option.splits)

lemma docs_saveUserDoc [simp]: "docs (saveUserDoc uid u1 s) = docs s"
  by (auto simp: saveUserDoc_def split: option.splits)

lemma communities_saveUserDoc [simp]: "communities (saveUserDoc uid u1 s) = communities s"
  by (auto simp: saveUserDoc_def split: option.splits)

lemma users_saveCreator:
  "users (saveCreator cid c s) x =
     (if x = cid then map_option (\<lambda>u0. u0\<lparr>karma := karma c\<rparr>) (users s x) else users s x)"
  by (auto simp: saveCreator_def split: option.splits)

lemma docs_saveCreator [simp]: "docs (saveCreator cid c s) = docs s"
  by (auto simp: saveCreator_def split: option.splits)

lemma communities_saveCreator [simp]: "communities (saveCreator cid c s) = communities s"
  by (auto simp: saveCreator_def split: option.splits)

lemma docs_saveDocument:
  "docs (saveDocument m d x s) m' d' =
     (if m' = m \<and> d' = d
      then map_option (\<lambda>d0. d0\<lparr>upvotes := upvotes x, downvotes := downvotes x\<rparr>) (docs s m d)
      else docs s m' d')"
  by (auto simp: saveDocument_def split: option.splits)

lemma users_saveDocument [simp]: "users (saveDocument m d x s) = users s"
  by (auto simp: saveDocument_def split: option.splits)

lemma communities_saveDocument [simp]: "communities (saveDocument m d x s) = communities s"
  by (auto simp: saveDocument_def split: option.splits)

lemma upvote_ok:
  assumes "docs s m d = Some doc" "users s uid = Some u"
    "getField u (upvotedDocs m) = Some ups" "getField u (downvotedDocs m) = Some downs"
    "d \<notin> set ups" "users s (Document.creator doc) = Some c"
  shows "upvoteDocument m s d uid =
     (let sw = (d \<in> set downs);
          doc' = doc\<lparr>downvotes := (if sw then downvotes doc - 1 else downvotes doc),
                     upvotes := upvotes doc + 1\<rparr>;
          u' = setField (upvotedDocs m) (ups @ [d])
                 (if sw then setField (downvotedDocs m) (pull d downs) u else u)
      in (saveCreator (Document.creator doc) (c\<lparr>karma := karma c + (if sw then 2 else 1)\<rparr>)
            (saveDocument m d doc' (saveUserDoc uid u' s)),
          Inr (200, doc')))"
  using assms
  by (auto simp: upvoteDocument_def Let_def push_def algebra_simps)

lemma downvote_ok:
  assumes "docs s m d = Some doc" "users s uid = Some u"
    "getField u (upvotedDocs m) = Some ups" "getField u (downvotedDocs m) = Some downs"
    "d \<notin> set downs" "users s (Document.creator doc) = Some c"
  shows "downvoteDocument m s d uid =
     (let sw = (d \<in> set ups);
          doc' = doc\<lparr>upvotes := (if sw then upvotes doc - 1 else upvotes doc),
                     downvotes := downvotes doc + 1\<rparr>;
          u' = setField (downvotedDocs m) (downs @ [d])
                 (if sw then setField (upvotedDocs m) (pull d ups) u else u)
      in (saveCreator (Document.creator doc) (c\<lparr>karma := karma c - (if sw then 2 else 1)\<rparr>)
            (saveDocument m d doc' (saveUserDoc uid u' s)),
          Inr (200, doc')))"
  using assms
  by (auto simp: downvoteDocument_def Let_def push_def algebra_simps)

lemma removeUpvote_ok:
  assumes "docs s m d = Some doc" "users s uid = Some u"
    "getField u (upvotedDocs m) = Some ups" "d \<in> set ups"
    "users s (Document.creator doc) = Some c"
  shows "removeUpvote m s d uid =
     (saveCreator (Document.creator doc) (c\<lparr>karma := karma c - 1\<rparr>)
        (saveDocument m d (doc\<lparr>upvotes := upvotes doc - 1\<rparr>)
           (saveUserDoc uid (setField (upvotedDocs m) (pull d ups) u) s)),
      Inr (200, doc\<lparr>upvotes := upvotes doc - 1\<rparr>))"
  using assms
  by (simp add: removeUpvote_def Let_def)

lemma removeDownvote_ok:
  assumes "docs s m d = Some doc" "users s uid = Some u"
    "getField u (downvotedDocs m) = Some downs" "d \<in> set downs"
    "users s (Document.creator doc) = Some c"
  shows "removeDownvote m s d uid =
     (saveCreator (Document.creator doc) (c\<lparr>karma := karma c + 1\<rparr>)
        (saveDocument m d (doc\<lparr>downvotes := downvotes doc - 1\<rparr>)
           (saveUserDoc uid (setField (downvotedDocs m) (pull d downs) u) s)),
      Inr (200, doc\<lparr>downvotes := downvotes doc - 1\<rparr>))"
  using assms
  by (simp add: removeDownvote_def Let_def)

lemma modelName_cases:
  "getField u (upvotedDocs m) = Some xs \<Longrightarrow> m = ''Post'' \<or> m = ''Comment''"
  by (auto simp: getField_def upvotedDocs_def split: if_splits)

lemma pull_push_absent: "d \<notin> set xs \<Longrightarrow> pull d (xs @ [d]) = xs"
  by (induction xs) (auto simp: pull_def)

lemma setField_setField [simp]: "setField f v (setField f w u) = setField f v u"
  by (simp add: setField_def)

lemma setField_getField: "getField u f = Some v \<Longrightarrow> setField f v u = u"
  by (auto simp: getField_def setField_def split: if_splits)

lemma mergeVotes_setField_karma:
  "(u0\<lparr>karma := k\<rparr>)\<lparr>upvotedPosts := upvotedPosts (setField f v u1),
        downvotedPosts := downvotedPosts (setField f v u1),
        upvotedComments := upvotedComments (setField f v u1),
        downvotedComments := downvotedComments (setField f v u1)\<rparr>
   = (setField f v u1)\<lparr>karma := k\<rparr>"
  by (cases u0; cases u1) (simp add: setField_def)

lemma mergeVotes_setField:
  "karma u0 = karma u1 \<Longrightarrow> u0\<lparr>upvotedPosts := upvotedPosts (setField f v u1),
        downvotedPosts := downvotedPosts (setField f v u1),
        upvotedComments := upvotedComments (setField f v u1),
        downvotedComments := downvotedComments (setField f v u1)\<rparr>
   = setField f v u1"
  by (cases u0; cases u1) (simp add: setField_def)

lemma setField_karma_update [simp]:
  "setField f v (u\<lparr>karma := k\<rparr>) = (setField f v u)\<lparr>karma := k\<rparr>"
  by (simp add: setField_def)

lemma store_eqI:
  "(\<And>x. users s' x = users s x) \<Longrightarrow> (\<And>m d. docs s' m d = docs s m d) \<Longrightarrow>
   communities s' = communities s \<Longrightarrow> s' = (s :: store)"
  by (cases s; cases s') (auto intro!: ext)

section \<open>Switching a vote\<close>

text \<open>
  Claim C2. The document exists, the acting user has both vote sets of the document's
  kind, and the document's creator exists with karma \<open>k\<close>. If the user is in state
  DOWNVOTED (the id is in the downvoted set and not in the upvoted set), an upvote
  succeeds, removes the id from the downvoted set, appends it to the upvoted set,
  lowers \<open>downvotes\<close> by one, raises \<open>upvotes\<close> by one and leaves the creator with
  karma \<open>k + 2\<close>. Symmetrically a downvote in state UPVOTED moves the id from the
  upvoted set to the downvoted set and leaves the creator with karma \<open>k - 2\<close>. In both
  final states the id is in exactly one of the two sets.
\<close>

theorem switch_vote:
  assumes "docs s m d = Some doc"
    and "upvotedSet m s uid = Some ups" and "downvotedSet m s uid = Some downs"
    and "karmaOf s (Document.creator doc) = Some k"
  shows "(d \<in> set downs \<and> d \<notin> set ups \<longrightarrow>
            (\<exists>s' doc'. upvoteDocument m s d uid = (s', Inr (200, doc')) \<and>
               docs s' m d = Some doc' \<and>
               downvotedSet m s' uid = Some (pull d downs) \<and> d \<notin> set (pull d downs) \<and>
               upvotedSet m s' uid = Some (push d ups) \<and> d \<in> set (push d ups) \<and>
               downvotes doc' = downvotes doc - 1 \<and> upvotes doc' = upvotes doc + 1 \<and>
               karmaOf s' (Document.creator doc) = Some (k + 2))) \<and>
         (d \<in> set ups \<and> d \<notin> set downs \<longrightarrow>
            (\<exists>s' doc'. downvoteDocument m s d uid = (s', Inr (200, doc')) \<and>
               docs s' m d = Some doc' \<and>
               upvotedSet m s' uid = Some (pull d ups) \<and> d \<notin> set (pull d ups) \<and>
               downvotedSet m s' uid = Some (push d downs) \<and> d \<in> set (push d downs) \<and>
               upvotes doc' = upvotes doc - 1 \<and> downvotes doc' = downvotes doc + 1 \<and>
               karmaOf s' (Document.creator doc) = Some (k - 2)))"
proof -
  from assms(2) obtain u where u: "users s uid = Some u" "getField u (upvotedDocs m) = Some ups"
    by (auto simp: upvotedSet_def split: option.splits)
  from assms(3) u have dn: "getField u (downvotedDocs m) = Some downs"
    by (auto simp: downvotedSet_def)
  from assms(4) obtain c where c: "users s (Document.creator doc) = Some c" "karma c = k"
    by (auto simp: karmaOf_def)
  show ?thesis
    using assms(1) u dn c
    by (auto simp: upvote_ok downvote_ok Let_def upvotedSet_def downvotedSet_def karmaOf_def
        users_saveCreator users_saveUserDoc docs_saveDocument getField_setField pull_def push_def)
qed

text \<open>The two transitions on the example store: DOWNVOTED then upvote, UPVOTED then downvote.\<close>

theorem switch_vote_witness:
  "(\<exists>s' doc'. upvoteDocument ''Post'' (exampleStore 0 [] [''D'']) ''D'' ''A'' = (s', Inr (200, doc')) \<and>
      docs s' ''Post'' ''D'' = Some doc' \<and>
      downvotedSet ''Post'' s' ''A'' = Some [] \<and> upvotedSet ''Post'' s' ''A'' = Some [''D''] \<and>
      downvotes doc' = 0 \<and> upvotes doc' = 4 \<and> karmaOf s' ''B'' = Some 9) \<and>
   (\<exists>s' doc'. downvoteDocument ''Post'' (exampleStore 0 [''D''] []) ''D'' ''A'' = (s', Inr (200, doc')) \<and>
      docs s' ''Post'' ''D'' = Some doc' \<and>
      upvotedSet ''Post'' s' ''A'' = Some [] \<and> downvotedSet ''Post'' s' ''A'' = Some [''D''] \<and>
      upvotes doc' = 2 \<and> downvotes doc' = 2 \<and> karmaOf s' ''B'' = Some 5)"
proof -
  have d: "\<And>ups downs. docs (exampleStore 0 ups downs) ''Post'' ''D'' = Some exampleDoc"
    by (simp add: exampleStore_def)
  have u: "\<And>ups downs. upvotedSet ''Post'' (exampleStore 0 ups downs) ''A'' = Some ups"
    by (simp add: exampleStore_def upvotedSet_def exampleUser_def getField_def upvotedDocs_def)
  have dn: "\<And>ups downs. downvotedSet ''Post'' (exampleStore 0 ups downs) ''A'' = Some downs"
    by (simp add: exampleStore_def downvotedSet_def exampleUser_def getField_def downvotedDocs_def)
  have k: "\<And>ups downs. karmaOf (exampleStore 0 ups downs) (Document.creator exampleDoc) = Some 7"
    by (simp add: exampleStore_def karmaOf_def exampleUser_def exampleDoc_def)
  show ?thesis
    using switch_vote [OF d u dn k, of "[]" "[''D'']"] switch_vote [OF d u dn k, of "[''D'']" "[]"]
    by (simp add: pull_def push_def exampleDoc_def)
qed

section \<open>Upvote followed by remove-upvote\<close>

text \<open>
  Claim C4. For a user in state NONE on an existing document whose creator exists, an
  upvote followed by a remove-upvote both succeed and the store after the second
  request is the store before the first: the document's counters, the user's vote
  sets and the creator's karma (and everything else) have their former values. The
  document returned by the removal is the original document.
\<close>

theorem upvote_removeUpvote:
  assumes "docs s m d = Some doc"
    and "upvotedSet m s uid = Some ups" and "downvotedSet m s uid = Some downs"
    and "d \<notin> set ups" and "d \<notin> set downs"
    and "karmaOf s (Document.creator doc) = Some k"
  shows "\<exists>s1 doc1. upvoteDocument m s d uid = (s1, Inr (200, doc1)) \<and>
           removeUpvote m s1 d uid = (s, Inr (200, doc))"
proof -
  from assms(2) obtain u where u: "users s uid = Some u" "getField u (upvotedDocs m) = Some ups"
    by (auto simp: upvotedSet_def split: option.splits)
  from assms(3) u have dn: "getField u (downvotedDocs m) = Some downs"
    by (auto simp: downvotedSet_def)
  from assms(6) obtain c where c: "users s (Document.creator doc) = Some c" "karma c = k"
    by (auto simp: karmaOf_def)
  define u1 where "u1 = setField (upvotedDocs m) (ups @ [d]) u"
  define doc1 where "doc1 = doc\<lparr>upvotes := upvotes doc + 1\<rparr>"
  define s1 where "s1 = saveCreator (Document.creator doc) (c\<lparr>karma := karma c + 1\<rparr>)
            (saveDocument m d doc1 (saveUserDoc uid u1 s))"
  have up: "upvoteDocument m s d uid = (s1, Inr (200, doc1))"
    using assms(1,4,5) u dn c by (simp add: upvote_ok Let_def s1_def doc1_def u1_def)
  have d1: "docs s1 m d = Some doc1"
    using assms(1) by (simp add: s1_def docs_saveDocument doc1_def)
  have cr1: "Document.creator doc1 = Document.creator doc" by (simp add: doc1_def)
  define u1' where "u1' = (if uid = Document.creator doc then u1\<lparr>karma := karma c + 1\<rparr> else u1)"
  have ku1: "karma u1 = karma u" by (simp add: u1_def)
  have us1: "users s1 uid = Some u1'"
    using u c by (auto simp: s1_def users_saveCreator users_saveUserDoc u1_def u1'_def mergeVotes_setField)
  have g1: "getField u1' (upvotedDocs m) = Some (ups @ [d])"
    using u by (auto simp: u1'_def u1_def getField_setField)
  define c1 where "c1 = (if uid = Document.creator doc then u1' else c\<lparr>karma := karma c + 1\<rparr>)"
  have cs1: "users s1 (Document.creator doc1) = Some c1"
    using u c us1 by (auto simp: cr1 c1_def s1_def users_saveCreator users_saveUserDoc)
  have kc1: "karma c1 = karma c + 1"
    by (auto simp: c1_def u1'_def)
  have oth: "\<And>x. x \<noteq> uid \<Longrightarrow> x \<noteq> Document.creator doc \<Longrightarrow> users s1 x = users s x"
    by (simp add: s1_def users_saveCreator users_saveUserDoc)
  have "d \<in> set (ups @ [d])" by simp
  note rm = removeUpvote_ok[OF d1 us1 g1 this cs1]
  have docback: "doc1\<lparr>upvotes := upvotes doc1 - 1\<rparr> = doc" by (simp add: doc1_def)
  have "saveCreator (Document.creator doc1) (c1\<lparr>karma := karma c1 - 1\<rparr>)
        (saveDocument m d (doc1\<lparr>upvotes := upvotes doc1 - 1\<rparr>)
           (saveUserDoc uid (setField (upvotedDocs m) (pull d (ups @ [d])) u1') s1)) = s"
  proof (rule store_eqI)
    fix x show "users (saveCreator (Document.creator doc1) (c1\<lparr>karma := karma c1 - 1\<rparr>)
        (saveDocument m d (doc1\<lparr>upvotes := upvotes doc1 - 1\<rparr>)
           (saveUserDoc uid (setField (upvotedDocs m) (pull d (ups @ [d])) u1') s1))) x = users s x"
      using u c us1 cs1 assms(4) kc1 oth
      apply (simp add: users_saveCreator users_saveUserDoc cr1 pull_push_absent)
      apply (auto simp: mergeVotes_setField mergeVotes_setField_karma u1'_def u1_def setField_getField c1_def)
      done
  next
    fix m' d' show "docs (saveCreator (Document.creator doc1) (c1\<lparr>karma := karma c1 - 1\<rparr>)
        (saveDocument m d (doc1\<lparr>upvotes := upvotes doc1 - 1\<rparr>)
           (saveUserDoc uid (setField (upvotedDocs m) (pull d (ups @ [d])) u1') s1))) m' d' = docs s m' d'"
      using assms(1) by (auto simp: docs_saveDocument s1_def doc1_def)
  next
    show "communities (saveCreator (Document.creator doc1) (c1\<lparr>karma := karma c1 - 1\<rparr>)
        (saveDocument m d (doc1\<lparr>upvotes := upvotes doc1 - 1\<rparr>)
           (saveUserDoc uid (setField (upvotedDocs m) (pull d (ups @ [d])) u1') s1))) = communities s"
      by (simp add: s1_def)
  qed
  with rm up docback show ?thesis by simp
qed

text \<open>The round trip on the example store.\<close>

theorem upvote_removeUpvote_witness:
  "\<exists>s1 doc1. upvoteDocument ''Post'' (exampleStore 0 [] []) ''D'' ''A'' = (s1, Inr (200, doc1)) \<and>
      removeUpvote ''Post'' s1 ''D'' ''A'' = (exampleStore 0 [] [], Inr (200, exampleDoc))"
proof -
  have d: "docs (exampleStore 0 [] []) ''Post'' ''D'' = Some exampleDoc"
    by (simp add: exampleStore_def)
  have u: "upvotedSet ''Post'' (exampleStore 0 [] []) ''A'' = Some []"
    by (simp add: exampleStore_def upvotedSet_def exampleUser_def getField_def upvotedDocs_def)
  have dn: "downvotedSet ''Post'' (exampleStore 0 [] []) ''A'' = Some []"
    by (simp add: exampleStore_def downvotedSet_def exampleUser_def getField_def downvotedDocs_def)
  have k: "karmaOf (exampleStore 0 [] []) (Document.creator exampleDoc) = Some 7"
    by (simp add: exampleStore_def karmaOf_def exampleUser_def exampleDoc_def)
  show ?thesis
    using upvote_removeUpvote [OF d u dn _ _ k] by simp
qed

section \<open>Outcomes of the vote handlers\<close>

text \<open>A successful vote tells which guards were passed.\<close>

lemma upvote_success_cases:
  assumes "upvoteDocument m s d uid = (s', Inr r)"
  obtains doc u ups downs c where "docs s m d = Some doc" "users s uid = Some u"
    "getField u (upvotedDocs m) = Some ups" "getField u (downvotedDocs m) = Some downs"
    "d \<notin> set ups" "users s (Document.creator doc) = Some c"
  using assms
  by (auto simp: upvoteDocument_def Let_def split: option.splits if_splits)

lemma downvote_success_cases:
  assumes "downvoteDocument m s d uid = (s', Inr r)"
  obtains doc u ups downs c where "docs s m d = Some doc" "users s uid = Some u"
    "getField u (upvotedDocs m) = Some ups" "getField u (downvotedDocs m) = Some downs"
    "d \<notin> set downs" "users s (Document.creator doc) = Some c"
  using assms
  by (auto simp: downvoteDocument_def Let_def split: option.splits if_splits)

lemma removeUpvote_success_cases:
  assumes "removeUpvote m s d uid = (s', Inr r)"
  obtains doc u ups c where "docs s m d = Some doc" "users s uid = Some u"
    "getField u (upvotedDocs m) = Some ups" "d \<in> set ups"
    "users s (Document.creator doc) = Some c"
  using assms
  by (auto simp: removeUpvote_def Let_def split: option.splits if_splits)

lemma removeDownvote_success_cases:
  assumes "removeDownvote m s d uid = (s', Inr r)"
  obtains doc u downs c where "docs s m d = Some doc" "users s uid = Some u"
    "getField u (downvotedDocs m) = Some downs" "d \<in> set downs"
    "users s (Document.creator doc) = Some c"
  using assms
  by (auto simp: removeDownvote_def Let_def split: option.splits if_splits)

lemma upvote_already:
  assumes "docs s m d = Some doc" "upvotedSet m s uid = Some ups" "d \<in> set ups"
  shows "upvoteDocument m s d uid = (s, Inl (AppError ''You have already upvoted'' 400))"
  using assms
  by (auto simp: upvoteDocument_def upvotedSet_def split: option.splits dest: getField_up_imp_down)

lemma upvote_success_post:
  assumes "upvoteDocument m s d uid = (s', Inr r)"
  shows "\<exists>doc' ups'. docs s' m d = Some doc' \<and> upvotedSet m s' uid = Some ups' \<and> d \<in> set ups'"
proof -
  from assms obtain doc u ups downs c where h: "docs s m d = Some doc" "users s uid = Some u"
    "getField u (upvotedDocs m) = Some ups" "getField u (downvotedDocs m) = Some downs"
    "d \<notin> set ups" "users s (Document.creator doc) = Some c"
    by (rule upvote_success_cases)
  from assms h show ?thesis
    by (auto simp: upvote_ok Let_def docs_saveDocument upvotedSet_def users_saveCreator
        users_saveUserDoc getField_setField)
qed

section \<open>Voting twice\<close>

text \<open>
  Claim C3. When the document exists and the acting user's upvoted set of its kind
  contains the document id, an upvote fails with the operational error
  ``You have already upvoted'' (status 400) and the store is left as it was: no vote
  set, counter or karma changes. In particular, after any successful upvote a second
  upvote by the same user on the same document fails with that error and changes
  nothing.
\<close>

theorem upvote_already_voted:
  "(docs s m d = Some doc \<and> upvotedSet m s uid = Some ups \<and> d \<in> set ups \<longrightarrow>
      upvoteDocument m s d uid = (s, Inl (AppError ''You have already upvoted'' 400))) \<and>
   (upvoteDocument m s d uid = (s', Inr r) \<longrightarrow>
      upvoteDocument m s' d uid = (s', Inl (AppError ''You have already upvoted'' 400)))"
proof (intro conjI impI)
  assume "docs s m d = Some doc \<and> upvotedSet m s uid = Some ups \<and> d \<in> set ups"
  then show "upvoteDocument m s d uid = (s, Inl (AppError ''You have already upvoted'' 400))"
    by (simp add: upvote_already)
next
  assume "upvoteDocument m s d uid = (s', Inr r)"
  then obtain doc' ups' where "docs s' m d = Some doc'" "upvotedSet m s' uid = Some ups'" "d \<in> set ups'"
    using upvote_success_post by blast
  then show "upvoteDocument m s' d uid = (s', Inl (AppError ''You have already upvoted'' 400))"
    by (rule upvote_already)
qed

text \<open>On the example store: an upvote in state UPVOTED, and two upvotes in a row from state NONE.\<close>

theorem upvote_already_voted_witness:
  "upvoteDocument ''Post'' (exampleStore 0 [''D''] []) ''D'' ''A'' =
     (exampleStore 0 [''D''] [], Inl (AppError ''You have already upvoted'' 400)) \<and>
   (\<exists>s' r. upvoteDocument ''Post'' (exampleStore 0 [] []) ''D'' ''A'' = (s', Inr r) \<and>
      upvoteDocument ''Post'' s' ''D'' ''A'' = (s', Inl (AppError ''You have already upvoted'' 400)))"
proof -
  have d: "\<And>ups downs. docs (exampleStore 0 ups downs) ''Post'' ''D'' = Some exampleDoc"
    by (simp add: exampleStore_def)
  have u: "\<And>ups downs. users (exampleStore 0 ups downs) ''A'' = Some (exampleUser 0 ups downs)"
    by (simp add: exampleStore_def)
  have c: "\<And>ups downs. users (exampleStore 0 ups downs) (Document.creator exampleDoc) =
             Some (exampleUser 7 [] [])"
    by (simp add: exampleStore_def exampleDoc_def)
  have gu: "\<And>k ups downs. getField (exampleUser k ups downs) (upvotedDocs ''Post'') = Some ups"
    by (simp add: exampleUser_def getField_def upvotedDocs_def)
  have gd: "\<And>k ups downs. getField (exampleUser k ups downs) (downvotedDocs ''Post'') = Some downs"
    by (simp add: exampleUser_def getField_def downvotedDocs_def)
  have us: "upvotedSet ''Post'' (exampleStore 0 [''D''] []) ''A'' = Some [''D'']"
    by (simp add: upvotedSet_def u gu)
  have first: "upvoteDocument ''Post'' (exampleStore 0 [''D''] []) ''D'' ''A'' =
     (exampleStore 0 [''D''] [], Inl (AppError ''You have already upvoted'' 400))"
    using upvote_already_voted [where s = "exampleStore 0 [''D''] []" and m = "''Post''"
        and d = "''D''" and uid = "''A''" and doc = exampleDoc and ups = "[''D'']", THEN conjunct1]
      d us by simp
  have "\<exists>s' doc'. upvoteDocument ''Post'' (exampleStore 0 [] []) ''D'' ''A'' = (s', Inr (200, doc'))"
    using upvote_ok [OF d u gu gd _ c, of "[]" "[]"] by (simp add: Let_def)
  then obtain s1 doc1 where
    e1: "upvoteDocument ''Post'' (exampleStore 0 [] []) ''D'' ''A'' = (s1, Inr (200, doc1))" by blast
  have "upvoteDocument ''Post'' s1 ''D'' ''A'' = (s1, Inl (AppError ''You have already upvoted'' 400))"
    using upvote_already_voted [where s = "exampleStore 0 [] []" and m = "''Post''"
        and d = "''D''" and uid = "''A''" and s' = s1 and r = "(200, doc1)", THEN conjunct2] e1
    by simp
  with e1 first show ?thesis by blast
qed

section \<open>Removing a vote that was not cast\<close>

text \<open>
  Claim C5. On an existing document, remove-upvote by a user whose upvoted set does
  not contain the id fails with ``You have not upvoted'' (status 400), and
  remove-downvote by a user whose downvoted set does not contain the id fails with
  ``You have not downvoted'' (status 400). In both cases the store is unchanged.
\<close>

theorem remove_not_voted:
  assumes "docs s m d = Some doc"
  shows "(upvotedSet m s uid = Some ups \<and> d \<notin> set ups \<longrightarrow>
            removeUpvote m s d uid = (s, Inl (AppError ''You have not upvoted'' 400))) \<and>
         (downvotedSet m s uid = Some downs \<and> d \<notin> set downs \<longrightarrow>
            removeDownvote m s d uid = (s, Inl (AppError ''You have not downvoted'' 400)))"
  using assms
  by (auto simp: removeUpvote_def removeDownvote_def upvotedSet_def downvotedSet_def
      split: option.splits)

text \<open>Both removals in state NONE on the example store.\<close>

theorem remove_not_voted_witness:
  "removeUpvote ''Post'' (exampleStore 0 [] []) ''D'' ''A'' =
     (exampleStore 0 [] [], Inl (AppError ''You have not upvoted'' 400)) \<and>
   removeDownvote ''Post'' (exampleStore 0 [] []) ''D'' ''A'' =
     (exampleStore 0 [] [], Inl (AppError ''You have not downvoted'' 400))"
proof -
  have d: "docs (exampleStore 0 [] []) ''Post'' ''D'' = Some exampleDoc"
    by (simp add: exampleStore_def)
  have us: "upvotedSet ''Post'' (exampleStore 0 [] []) ''A'' = Some []"
    by (simp add: upvotedSet_def exampleStore_def exampleUser_def getField_def upvotedDocs_def)
  have ds: "downvotedSet ''Post'' (exampleStore 0 [] []) ''A'' = Some []"
    by (simp add: downvotedSet_def exampleStore_def exampleUser_def getField_def downvotedDocs_def)
  show ?thesis
    using remove_not_voted [OF d, of "''A''" "[]" "[]"] us ds by simp
qed

section \<open>Operational errors leave the store alone\<close>

text \<open>
  Claim C9. Whenever one of the four vote handlers ends with an operational error
  (an \<open>AppError\<close>: document not found, already voted, not voted), the store after
  the request is the store before it: neither the user record, nor the document, nor
  the creator has been written.
\<close>

theorem vote_error_no_mutation:
  "(upvoteDocument m s d uid = (s', Inl (AppError msg code)) \<longrightarrow> s' = s) \<and>
   (downvoteDocument m s d uid = (s', Inl (AppError msg code)) \<longrightarrow> s' = s) \<and>
   (removeUpvote m s d uid = (s', Inl (AppError msg code)) \<longrightarrow> s' = s) \<and>
   (removeDownvote m s d uid = (s', Inl (AppError msg code)) \<longrightarrow> s' = s)"
  by (auto simp: upvoteDocument_def downvoteDocument_def removeUpvote_def removeDownvote_def
      Let_def split: option.splits if_splits)

text \<open>All four handlers on a document id that is not in the store.\<close>

theorem vote_error_no_mutation_witness:
  "upvoteDocument ''Post'' (exampleStore 0 [] []) ''Z'' ''A'' =
     (exampleStore 0 [] [], Inl (AppError ''Document not found'' 404)) \<and>
   downvoteDocument ''Post'' (exampleStore 0 [] []) ''Z'' ''A'' =
     (exampleStore 0 [] [], Inl (AppError ''Document not found'' 404)) \<and>
   removeUpvote ''Post'' (exampleStore 0 [] []) ''Z'' ''A'' =
     (exampleStore 0 [] [], Inl (AppError ''Document not found'' 404)) \<and>
   removeDownvote ''Post'' (exampleStore 0 [] []) ''Z'' ''A'' =
     (exampleStore 0 [] [], Inl (AppError ''Document not found'' 404))"
proof -
  have z: "docs (exampleStore 0 [] []) ''Post'' ''Z'' = None"
    by (simp add: exampleStore_def)
  have "snd (upvoteDocument ''Post'' (exampleStore 0 [] []) ''Z'' ''A'') =
          Inl (AppError ''Document not found'' 404)"
       "snd (downvoteDocument ''Post'' (exampleStore 0 [] []) ''Z'' ''A'') =
          Inl (AppError ''Document not found'' 404)"
       "snd (removeUpvote ''Post'' (exampleStore 0 [] []) ''Z'' ''A'') =
          Inl (AppError ''Document not found'' 404)"
       "snd (removeDownvote ''Post'' (exampleStore 0 [] []) ''Z'' ''A'') =
          Inl (AppError ''Document not found'' 404)"
    by (simp_all add: upvoteDocument_def downvoteDocument_def removeUpvote_def removeDownvote_def z)
  then show ?thesis
    using vote_error_no_mutation [where s = "exampleStore 0 [] []" and m = "''Post''"
        and d = "''Z''" and uid = "''A''" and msg = "''Document not found''" and code = 404
        and s' = "fst (upvoteDocument ''Post'' (exampleStore 0 [] []) ''Z'' ''A'')", THEN conjunct1]
      vote_error_no_mutation [where s = "exampleStore 0 [] []" and m = "''Post''"
        and d = "''Z''" and uid = "''A''" and msg = "''Document not found''" and code = 404
        and s' = "fst (downvoteDocument ''Post'' (exampleStore 0 [] []) ''Z'' ''A'')",
        THEN conjunct2, THEN conjunct1]
      vote_error_no_mutation [where s = "exampleStore 0 [] []" and m = "''Post''"
        and d = "''Z''" and uid = "''A''" and msg = "''Document not found''" and code = 404
        and s' = "fst (removeUpvote ''Post'' (exampleStore 0 [] []) ''Z'' ''A'')",
        THEN conjunct2, THEN conjunct2, THEN conjunct1]
      vote_error_no_mutation [where s = "exampleStore 0 [] []" and m = "''Post''"
        and d = "''Z''" and uid = "''A''" and msg = "''Document not found''" and code = 404
        and s' = "fst (removeDownvote ''Post'' (exampleStore 0 [] []) ''Z'' ''A'')",
        THEN conjunct2, THEN conjunct2, THEN conjunct2]
    by (simp add: prod_eq_iff)
qed

section \<open>Banning a user\<close>

text \<open>
  When \<^verbatim>\<open>req.body.user\<close> is the canonical string of the target's id, the guards
  do what the interface says: with the target user and the community present, the
  ban fails with status 400 and leaves the store unchanged if the acting user is not
  among the moderators, if the target is already banned, or if the target is the
  creator; otherwise the target is appended to \<open>bannedUsers\<close> and the updated
  community is returned with status 200.
\<close>

lemma ban_guards_canonical:
  assumes "castObjectId paramsId = Some cid" and "castObjectId bodyUser = Some bodyUser"
    and "users s bodyUser = Some target" and "communities s cid = Some c"
  shows "(actor \<notin> set (moderators c) \<longrightarrow>
            (\<exists>msg. ban s paramsId actor bodyUser = (s, Inl (AppError msg 400)))) \<and>
         (bodyUser \<in> set (bannedUsers c) \<longrightarrow>
            (\<exists>msg. ban s paramsId actor bodyUser = (s, Inl (AppError msg 400)))) \<and>
         (creator c = bodyUser \<longrightarrow>
            (\<exists>msg. ban s paramsId actor bodyUser = (s, Inl (AppError msg 400)))) \<and>
         (actor \<in> set (moderators c) \<and> bodyUser \<notin> set (bannedUsers c) \<and>
          creator c \<noteq> bodyUser \<longrightarrow>
            ban s paramsId actor bodyUser =
              (s\<lparr>communities :=
                   (communities s)(cid \<mapsto> c\<lparr>bannedUsers := bannedUsers c @ [bodyUser]\<rparr>)\<rparr>,
               Inr (200, c\<lparr>bannedUsers := bannedUsers c @ [bodyUser]\<rparr>)))"
  using assms by (auto simp: ban_def push_def Let_def)

text \<open>The ids of the example store are canonical, and an upper-case spelling casts to them.\<close>

lemma castObjectId_examples:
  "castObjectId creatorId = Some creatorId"
  "castObjectId bannedId = Some bannedId"
  "castObjectId communityId = Some communityId"
  "castObjectId ''5F0000000000000000000ABC'' = Some creatorId"
  "castObjectId ''5F0000000000000000000BAD'' = Some bannedId"
  by (simp_all add: castObjectId_def isHexChar_def toLowerHex_def creatorId_def bannedId_def
      communityId_def)

text \<open>With the creator's id spelled canonically the creator guard answers 400.\<close>

lemma ban_creator_canonical:
  "ban banStore communityId moderatorId creatorId = (banStore, Inl (AppError ''Unauthorized'' 400))"
  by (simp add: ban_def castObjectId_examples)
     (simp add: banStore_def banCommunity_def creatorId_def moderatorId_def bannedId_def
        otherId_def communityId_def)

text \<open>
  The same slip lets an already banned user be banned again: spelled in upper case,
  the id is not found among the canonical strings of \<open>bannedUsers\<close> and is appended
  a second time.
\<close>

lemma ban_banned_upper_case:
  "ban banStore communityId moderatorId ''5F0000000000000000000BAD'' =
     (banStore\<lparr>communities := (communities banStore)(communityId \<mapsto>
          banCommunity\<lparr>bannedUsers := [bannedId, bannedId]\<rparr>)\<rparr>,
      Inr (200, banCommunity\<lparr>bannedUsers := [bannedId, bannedId]\<rparr>))"
  by (simp add: ban_def castObjectId_examples)
     (simp add: banStore_def banCommunity_def creatorId_def moderatorId_def bannedId_def
        otherId_def communityId_def push_def Let_def)

text \<open>
  Claim C7. The specification has the ban fail with a status-400 error when the target
  user is the community's creator (and when the target is already banned). On the
  example store a moderator sends the creator's id in upper-case hexadecimal digits:
  the lookup casts the string and finds the creator, the creator guard compares the
  raw string with the canonical one and does not fire, and the handler appends the
  creator to \<open>bannedUsers\<close>, stores the community and answers 200.
\<close>

theorem ban_creator_upper_case:
  "ban banStore communityId moderatorId ''5F0000000000000000000ABC'' =
     (banStore\<lparr>communities := (communities banStore)(communityId \<mapsto>
          banCommunity\<lparr>bannedUsers := [bannedId, creatorId]\<rparr>)\<rparr>,
      Inr (200, banCommunity\<lparr>bannedUsers := [bannedId, creatorId]\<rparr>))"
  by (simp add: ban_def castObjectId_examples)
     (simp add: banStore_def banCommunity_def creatorId_def moderatorId_def bannedId_def
        otherId_def communityId_def push_def Let_def)

section \<open>Creating a community\<close>

text \<open>
  The karma comparison of the handler is against 49: with a valid name, a creator
  whose karma is below 49 is refused with status 400 and a message asking for at
  least 50 karma; from 49 upwards the comparison lets the request through.
\<close>

lemma createCommunity_karma_below_49:
  assumes "matchesWord nm" and "users s uid = Some u" and "karma u < 49"
  shows "createCommunity s newId uid (Some nm) mods banned =
           (s, Inl (AppError ''You need at least 50 karma to create a community'' 400))"
  using assms by (simp add: createCommunity_def)

lemma createCommunity_karma_from_49:
  assumes "matchesWord nm" and "users s uid = Some u" and "49 \<le> karma u"
  shows "\<exists>c. createCommunity s newId uid (Some nm) None banned =
           (s\<lparr>communities := (communities s)(newId \<mapsto> c)\<rparr>, Inr (201, c)) \<and>
           creator c = uid \<and> moderators c = [uid]"
  using assms by (simp add: createCommunity_def Let_def)

lemma createCommunity_moderators_supplied:
  assumes "matchesWord nm" and "users s uid = Some u" and "49 \<le> karma u"
  shows "createCommunity s newId uid (Some nm) (Some ms) banned = (s, Inl TypeError)"
  using assms by (simp add: createCommunity_def)

lemma createCommunity_created_moderators:
  assumes "createCommunity s newId uid nm mods banned = (s', Inr (code, c))"
  shows "creator c = uid \<and> uid \<in> set (moderators c) \<and> mods = None"
  using assms
  by (auto simp: createCommunity_def Let_def split: option.splits if_splits)

text \<open>
  Claim C1. The specification has community creation fail for every karma below 50,
  in particular at 49. On the example store with the creator's karma set to 49 and a
  valid name the handler does not fail: it stores the new community and answers 201.
  The message of the guard itself asks for at least 50 karma.
\<close>

theorem createCommunity_karma_49:
  "createCommunity (exampleStore 49 [] []) ''N'' ''A'' (Some ''dogs'') None None =
     ((exampleStore 49 [] [])\<lparr>communities := (communities (exampleStore 49 [] []))(''N'' \<mapsto>
          \<lparr>name = ''dogs'', creator = ''A'', moderators = [''A''], bannedUsers = []\<rparr>)\<rparr>,
      Inr (201, \<lparr>name = ''dogs'', creator = ''A'', moderators = [''A''], bannedUsers = []\<rparr>))"
  by (simp add: createCommunity_def exampleStore_def exampleUser_def matchesWord_def isWordChar_def Let_def)

text \<open>
  The sibling expression in \<^verbatim>\<open>updateCommunity\<close> does put the creator among the
  moderators, with or without a supplied list.
\<close>

lemma updateCommunityMods_creator: "userId \<in> set (updateCommunityMods ms userId)"
  by (simp add: updateCommunityMods_def arrayFromSet_def split: option.splits)

text \<open>
  Claim C6. The specification has every creation with a valid name and sufficient
  karma produce a community whose moderators contain the creator, also when the
  request supplies a moderators list. On the example store with karma 50, a valid name
  and the moderators list \<open>[M]\<close>, the handler raises \<open>TypeError\<close> and creates
  nothing: the expression meant to add the creator constructs a set from the number
  returned by \<open>push\<close>.
\<close>

theorem createCommunity_with_moderators:
  "createCommunity (exampleStore 50 [] []) ''N'' ''A'' (Some ''dogs'') (Some [''M'']) None =
     (exampleStore 50 [] [], Inl TypeError)"
  by (simp add: createCommunity_def exampleStore_def exampleUser_def matchesWord_def isWordChar_def Let_def)

section \<open>The uniqueness invariant\<close>

lemma up_eq_iff_down_eq: "(upvotedDocs m = upvotedDocs k) = (downvotedDocs m = downvotedDocs k)"
  by (auto simp: upvotedDocs_def downvotedDocs_def)

lemma upvotedSet_saveCreator [simp]: "upvotedSet k (saveCreator cid c s) x = upvotedSet k s x"
  by (auto simp: upvotedSet_def users_saveCreator split: option.splits)

lemma downvotedSet_saveCreator [simp]: "downvotedSet k (saveCreator cid c s) x = downvotedSet k s x"
  by (auto simp: downvotedSet_def users_saveCreator split: option.splits)

lemma upvotedSet_saveDocument [simp]: "upvotedSet k (saveDocument m d y s) x = upvotedSet k s x"
  by (simp add: upvotedSet_def)

lemma downvotedSet_saveDocument [simp]: "downvotedSet k (saveDocument m d y s) x = downvotedSet k s x"
  by (simp add: downvotedSet_def)

lemma upvotedSet_saveUserDoc:
  "upvotedSet k (saveUserDoc uid u1 s) x =
     (if x = uid \<and> users s uid \<noteq> None then getField u1 (upvotedDocs k) else upvotedSet k s x)"
  by (auto simp: upvotedSet_def users_saveUserDoc split: option.splits)

lemma downvotedSet_saveUserDoc:
  "downvotedSet k (saveUserDoc uid u1 s) x =
     (if x = uid \<and> users s uid \<noteq> None then getField u1 (downvotedDocs k) else downvotedSet k s x)"
  by (auto simp: downvotedSet_def users_saveUserDoc split: option.splits)

lemma set_pull [simp]: "set (pull d xs) = set xs - {d}"
  by (auto simp: pull_def)

lemma set_push [simp]: "set (push d xs) = insert d (set xs)"
  by (simp add: push_def)

lemma uniqueVotes_upvote:
  assumes "uniqueVotes k s u' d'"
  shows "uniqueVotes k (fst (upvoteDocument m s d uid)) u' d'"
proof (cases "upvotedDocs m = upvotedDocs k")
  case True
  then have dn: "downvotedDocs m = downvotedDocs k"
    using up_eq_iff_down_eq by blast
  show ?thesis
    using assms
    apply (simp add: upvoteDocument_def Let_def True dn split: option.splits)
    apply (auto simp: uniqueVotes_def upvotedSet_def downvotedSet_def users_saveUserDoc users_saveCreator
      getField_setField split: option.splits if_splits)
    done
next
  case False
  then have dn: "downvotedDocs m \<noteq> downvotedDocs k"
    using up_eq_iff_down_eq by blast
  show ?thesis
    using assms False dn
    apply (simp add: upvoteDocument_def Let_def split: option.splits)
    apply (auto simp: uniqueVotes_def upvotedSet_def downvotedSet_def users_saveUserDoc users_saveCreator
      getField_setField split: option.splits if_splits)
    done
qed

lemma uniqueVotes_downvote:
  assumes "uniqueVotes k s u' d'"
  shows "uniqueVotes k (fst (downvoteDocument m s d uid)) u' d'"
proof (cases "upvotedDocs m = upvotedDocs k")
  case True
  then have dn: "downvotedDocs m = downvotedDocs k"
    using up_eq_iff_down_eq by blast
  show ?thesis
    using assms
    apply (simp add: downvoteDocument_def Let_def True dn split: option.splits)
    apply (auto simp: uniqueVotes_def upvotedSet_def downvotedSet_def users_saveUserDoc users_saveCreator
      getField_setField split: option.splits if_splits)
    done
next
  case False
  then have dn: "downvotedDocs m \<noteq> downvotedDocs k"
    using up_eq_iff_down_eq by blast
  show ?thesis
    using assms False dn
    apply (simp add: downvoteDocument_def Let_def split: option.splits)
    apply (auto simp: uniqueVotes_def upvotedSet_def downvotedSet_def users_saveUserDoc users_saveCreator
      getField_setField split: option.splits if_splits)
    done
qed

lemma uniqueVotes_removeUpvote:
  assumes "uniqueVotes k s u' d'"
  shows "uniqueVotes k (fst (removeUpvote m s d uid)) u' d'"
  using assms
  apply (simp add: removeUpvote_def Let_def split: option.splits)
  apply (auto simp: uniqueVotes_def upvotedSet_def downvotedSet_def users_saveUserDoc users_saveCreator
      getField_setField split: option.splits if_splits)
  done

lemma uniqueVotes_removeDownvote:
  assumes "uniqueVotes k s u' d'"
  shows "uniqueVotes k (fst (removeDownvote m s d uid)) u' d'"
  using assms
  apply (simp add: removeDownvote_def Let_def split: option.splits)
  apply (auto simp: uniqueVotes_def upvotedSet_def downvotedSet_def users_saveUserDoc users_saveCreator
      getField_setField split: option.splits if_splits)
  done

text \<open>
  Claim C8. For every user, every document id and every kind: if the id is in at most
  one of the user's two opposing vote sets of that kind before a vote request, it is
  in at most one of them after it, for each of the four handlers, whatever the
  arguments of the request and whether it succeeds or raises.
\<close>

theorem vote_uniqueness_preserved:
  assumes "uniqueVotes k s u' d'"
  shows "uniqueVotes k (fst (upvoteDocument m s d uid)) u' d' \<and>
         uniqueVotes k (fst (downvoteDocument m s d uid)) u' d' \<and>
         uniqueVotes k (fst (removeUpvote m s d uid)) u' d' \<and>
         uniqueVotes k (fst (removeDownvote m s d uid)) u' d'"
  using assms
  by (simp add: uniqueVotes_upvote uniqueVotes_downvote uniqueVotes_removeUpvote
      uniqueVotes_removeDownvote)

text \<open>The four handlers applied to the example store in state UPVOTED.\<close>

theorem vote_uniqueness_preserved_witness:
  "uniqueVotes ''Post'' (exampleStore 0 [''D''] []) ''A'' ''D'' \<and>
   uniqueVotes ''Post'' (fst (upvoteDocument ''Post'' (exampleStore 0 [''D''] []) ''D'' ''A'')) ''A'' ''D'' \<and>
   uniqueVotes ''Post'' (fst (downvoteDocument ''Post'' (exampleStore 0 [''D''] []) ''D'' ''A'')) ''A'' ''D'' \<and>
   uniqueVotes ''Post'' (fst (removeUpvote ''Post'' (exampleStore 0 [''D''] []) ''D'' ''A'')) ''A'' ''D'' \<and>
   uniqueVotes ''Post'' (fst (removeDownvote ''Post'' (exampleStore 0 [''D''] []) ''D'' ''A'')) ''A'' ''D''"
proof -
  have h: "uniqueVotes ''Post'' (exampleStore 0 [''D''] []) ''A'' ''D''"
    by (simp add: uniqueVotes_def upvotedSet_def downvotedSet_def exampleStore_def exampleUser_def
        getField_def upvotedDocs_def downvotedDocs_def)
  from h vote_uniqueness_preserved [OF h, of "''Post''" "''D''" "''A''"] show ?thesis by simp
qed

section \<open>What a vote does not touch\<close>

lemma upvote_frame:
  assumes "docs s m d = Some doc" and "uid \<noteq> Document.creator doc"
    and "upvoteDocument m s d uid = (s', Inr (code, doc'))"
  shows "unchangedElsewhere m s d uid doc s' doc' \<and>
         (\<forall>downs. downvotedSet m s uid = Some downs \<and> d \<notin> set downs \<longrightarrow> downvotes doc' = downvotes doc)"
proof -
  from assms(3) obtain doc0 u ups downs c where h: "docs s m d = Some doc0" "users s uid = Some u"
    "getField u (upvotedDocs m) = Some ups" "getField u (downvotedDocs m) = Some downs"
    "d \<notin> set ups" "users s (Document.creator doc0) = Some c"
    by (rule upvote_success_cases)
  with assms(1) have [simp]: "doc0 = doc" by simp
  from assms h show ?thesis
    by (auto simp: upvote_ok Let_def docs_saveDocument karmaOf_def downvotedSet_def
        users_saveCreator users_saveUserDoc)
qed

lemma downvote_frame:
  assumes "docs s m d = Some doc" and "uid \<noteq> Document.creator doc"
    and "downvoteDocument m s d uid = (s', Inr (code, doc'))"
  shows "unchangedElsewhere m s d uid doc s' doc' \<and>
         (\<forall>ups. upvotedSet m s uid = Some ups \<and> d \<notin> set ups \<longrightarrow> upvotes doc' = upvotes doc)"
proof -
  from assms(3) obtain doc0 u ups downs c where h: "docs s m d = Some doc0" "users s uid = Some u"
    "getField u (upvotedDocs m) = Some ups" "getField u (downvotedDocs m) = Some downs"
    "d \<notin> set downs" "users s (Document.creator doc0) = Some c"
    by (rule downvote_success_cases)
  with assms(1) have [simp]: "doc0 = doc" by simp
  from assms h show ?thesis
    by (auto simp: downvote_ok Let_def docs_saveDocument karmaOf_def upvotedSet_def
        users_saveCreator users_saveUserDoc)
qed

lemma removeUpvote_frame:
  assumes "docs s m d = Some doc" and "uid \<noteq> Document.creator doc"
    and "removeUpvote m s d uid = (s', Inr (code, doc'))"
  shows "unchangedElsewhere m s d uid doc s' doc' \<and> downvotes doc' = downvotes doc"
proof -
  from assms(3) obtain doc0 u ups c where h: "docs s m d = Some doc0" "users s uid = Some u"
    "getField u (upvotedDocs m) = Some ups" "d \<in> set ups"
    "users s (Document.creator doc0) = Some c"
    by (rule removeUpvote_success_cases)
  with assms(1) have [simp]: "doc0 = doc" by simp
  from assms h show ?thesis
    by (auto simp: removeUpvote_ok Let_def docs_saveDocument karmaOf_def
        users_saveCreator users_saveUserDoc)
qed

lemma removeDownvote_frame:
  assumes "docs s m d = Some doc" and "uid \<noteq> Document.creator doc"
    and "removeDownvote m s d uid = (s', Inr (code, doc'))"
  shows "unchangedElsewhere m s d uid doc s' doc' \<and> upvotes doc' = upvotes doc"
proof -
  from assms(3) obtain doc0 u downs c where h: "docs s m d = Some doc0" "users s uid = Some u"
    "getField u (downvotedDocs m) = Some downs" "d \<in> set downs"
    "users s (Document.creator doc0) = Some c"
    by (rule removeDownvote_success_cases)
  with assms(1) have [simp]: "doc0 = doc" by simp
  from assms h show ?thesis
    by (auto simp: removeDownvote_ok Let_def docs_saveDocument karmaOf_def
        users_saveCreator users_saveUserDoc)
qed

text \<open>
  Claim C10. Let the document exist and the acting user differ from its creator. After
  a successful upvote, downvote, remove-upvote or remove-downvote the acting
  user's karma is unchanged; the stored document is the returned one and has the same
  creator and community; every user other than the acting user and the creator, every
  other document and all communities are unchanged. The counter of the opposite
  polarity is unchanged by the two removals, and by an upvote (downvote) unless the id
  was in the downvoted (upvoted) set, which is the switch transition.
\<close>

theorem vote_frame:
  assumes "docs s m d = Some doc" and "uid \<noteq> Document.creator doc"
  shows "(upvoteDocument m s d uid = (s', Inr (code, doc')) \<longrightarrow>
            unchangedElsewhere m s d uid doc s' doc' \<and>
            (\<forall>downs. downvotedSet m s uid = Some downs \<and> d \<notin> set downs \<longrightarrow>
               downvotes doc' = downvotes doc)) \<and>
         (downvoteDocument m s d uid = (s', Inr (code, doc')) \<longrightarrow>
            unchangedElsewhere m s d uid doc s' doc' \<and>
            (\<forall>ups. upvotedSet m s uid = Some ups \<and> d \<notin> set ups \<longrightarrow>
               upvotes doc' = upvotes doc)) \<and>
         (removeUpvote m s d uid = (s', Inr (code, doc')) \<longrightarrow>
            unchangedElsewhere m s d uid doc s' doc' \<and> downvotes doc' = downvotes doc) \<and>
         (removeDownvote m s d uid = (s', Inr (code, doc')) \<longrightarrow>
            unchangedElsewhere m s d uid doc s' doc' \<and> upvotes doc' = upvotes doc)"
proof -
  note up = upvote_frame [OF assms, of s' code doc', THEN impI]
  note down = downvote_frame [OF assms, of s' code doc', THEN impI]
  note rmUp = removeUpvote_frame [OF assms, of s' code doc', THEN impI]
  note rmDown = removeDownvote_frame [OF assms, of s' code doc', THEN impI]
  show ?thesis
    by (rule conjI [OF up conjI [OF down conjI [OF rmUp rmDown]]])
qed

text \<open>The four handlers succeeding on the example store, user \<open>A\<close> voting on \<open>B\<close>'s post.\<close>

theorem vote_frame_witness:
  "(\<exists>s' doc'. upvoteDocument ''Post'' (exampleStore 5 [] []) ''D'' ''A'' = (s', Inr (200, doc')) \<and>
       karmaOf s' ''A'' = Some 5 \<and> users s' ''M'' = users (exampleStore 5 [] []) ''M'' \<and>
       community doc' = ''C'' \<and> downvotes doc' = 1) \<and>
   (\<exists>s' doc'. downvoteDocument ''Post'' (exampleStore 5 [] []) ''D'' ''A'' = (s', Inr (200, doc')) \<and>
       karmaOf s' ''A'' = Some 5 \<and> users s' ''M'' = users (exampleStore 5 [] []) ''M'' \<and>
       community doc' = ''C'' \<and> upvotes doc' = 3) \<and>
   (\<exists>s' doc'. removeUpvote ''Post'' (exampleStore 5 [''D''] []) ''D'' ''A'' = (s', Inr (200, doc')) \<and>
       karmaOf s' ''A'' = Some 5 \<and> users s' ''M'' = users (exampleStore 5 [''D''] []) ''M'' \<and>
       community doc' = ''C'' \<and> downvotes doc' = 1) \<and>
   (\<exists>s' doc'. removeDownvote ''Post'' (exampleStore 5 [] [''D'']) ''D'' ''A'' = (s', Inr (200, doc')) \<and>
       karmaOf s' ''A'' = Some 5 \<and> users s' ''M'' = users (exampleStore 5 [] [''D'']) ''M'' \<and>
       community doc' = ''C'' \<and> upvotes doc' = 3)"
proof -
  have d: "\<And>ups downs. docs (exampleStore 5 ups downs) ''Post'' ''D'' = Some exampleDoc"
    by (simp add: exampleStore_def)
  have ne: "''A'' \<noteq> Document.creator exampleDoc"
    by (simp add: exampleDoc_def)
  have u: "\<And>ups downs. users (exampleStore 5 ups downs) ''A'' = Some (exampleUser 5 ups downs)"
    by (simp add: exampleStore_def)
  have c: "\<And>ups downs. users (exampleStore 5 ups downs) (Document.creator exampleDoc) =
             Some (exampleUser 7 [] [])"
    by (simp add: exampleStore_def exampleDoc_def)
  have gu: "\<And>k ups downs. getField (exampleUser k ups downs) (upvotedDocs ''Post'') = Some ups"
    by (simp add: exampleUser_def getField_def upvotedDocs_def)
  have gd: "\<And>k ups downs. getField (exampleUser k ups downs) (downvotedDocs ''Post'') = Some downs"
    by (simp add: exampleUser_def getField_def downvotedDocs_def)
  have ka: "\<And>ups downs. karmaOf (exampleStore 5 ups downs) ''A'' = Some 5"
    by (simp add: karmaOf_def exampleStore_def exampleUser_def)
  have dsn: "downvotedSet ''Post'' (exampleStore 5 [] []) ''A'' = Some []"
    by (simp add: downvotedSet_def u gd)
  have usn: "upvotedSet ''Post'' (exampleStore 5 [] []) ''A'' = Some []"
    by (simp add: upvotedSet_def u gu)
  have cm: "community exampleDoc = ''C''" "downvotes exampleDoc = 1" "upvotes exampleDoc = 3"
    by (simp_all add: exampleDoc_def)
  have "\<exists>s' doc'. upvoteDocument ''Post'' (exampleStore 5 [] []) ''D'' ''A'' = (s', Inr (200, doc'))"
    using upvote_ok [OF d u gu gd _ c, of "[]" "[]"] by (simp add: Let_def)
  then obtain s1 doc1 where
    e1: "upvoteDocument ''Post'' (exampleStore 5 [] []) ''D'' ''A'' = (s1, Inr (200, doc1))" by blast
  have "\<exists>s' doc'. downvoteDocument ''Post'' (exampleStore 5 [] []) ''D'' ''A'' = (s', Inr (200, doc'))"
    using downvote_ok [OF d u gu gd _ c, of "[]" "[]"] by (simp add: Let_def)
  then obtain s2 doc2 where
    e2: "downvoteDocument ''Post'' (exampleStore 5 [] []) ''D'' ''A'' = (s2, Inr (200, doc2))" by blast
  have "\<exists>s' doc'. removeUpvote ''Post'' (exampleStore 5 [''D''] []) ''D'' ''A'' = (s', Inr (200, doc'))"
    using removeUpvote_ok [OF d u gu _ c, of "[''D'']" "[]"] by simp
  then obtain s3 doc3 where
    e3: "removeUpvote ''Post'' (exampleStore 5 [''D''] []) ''D'' ''A'' = (s3, Inr (200, doc3))" by blast
  have "\<exists>s' doc'. removeDownvote ''Post'' (exampleStore 5 [] [''D'']) ''D'' ''A'' = (s', Inr (200, doc'))"
    using removeDownvote_ok [OF d u gd _ c, of "[''D'']" "[]"] by simp
  then obtain s4 doc4 where
    e4: "removeDownvote ''Post'' (exampleStore 5 [] [''D'']) ''D'' ''A'' = (s4, Inr (200, doc4))" by blast
  have r1: "karmaOf s1 ''A'' = Some 5 \<and> users s1 ''M'' = users (exampleStore 5 [] []) ''M'' \<and>
       community doc1 = ''C'' \<and> downvotes doc1 = 1"
    using vote_frame [where s = "exampleStore 5 [] []" and s' = s1 and code = 200 and doc' = doc1,
        OF d ne, THEN conjunct1] e1 ka dsn cm
    by (simp add: exampleDoc_def)
  have r2: "karmaOf s2 ''A'' = Some 5 \<and> users s2 ''M'' = users (exampleStore 5 [] []) ''M'' \<and>
       community doc2 = ''C'' \<and> upvotes doc2 = 3"
    using vote_frame [where s = "exampleStore 5 [] []" and s' = s2 and code = 200 and doc' = doc2,
        OF d ne, THEN conjunct2, THEN conjunct1]
      e2 ka usn cm
    by (simp add: exampleDoc_def)
  have r3: "karmaOf s3 ''A'' = Some 5 \<and> users s3 ''M'' = users (exampleStore 5 [''D''] []) ''M'' \<and>
       community doc3 = ''C'' \<and> downvotes doc3 = 1"
    using vote_frame [where s = "exampleStore 5 [''D''] []" and s' = s3 and code = 200 and doc' = doc3,
        OF d ne, THEN conjunct2, THEN conjunct2, THEN conjunct1] e3 ka cm
    by (simp add: exampleDoc_def)
  have r4: "karmaOf s4 ''A'' = Some 5 \<and> users s4 ''M'' = users (exampleStore 5 [] [''D'']) ''M'' \<and>
       community doc4 = ''C'' \<and> upvotes doc4 = 3"
    using vote_frame [where s = "exampleStore 5 [] [''D'']" and s' = s4 and code = 200 and doc' = doc4,
        OF d ne, THEN conjunct2, THEN conjunct2, THEN conjunct2] e4 ka cm
    by (simp add: exampleDoc_def)
  from e1 e2 e3 e4 r1 r2 r3 r4 show ?thesis by blast
qed

end
